theory Spec2Isabelle
  imports Complex_Main "HOL-Library.Product_Lexorder" "HOL-Library.Multiset"
begin

section \<open>Python values used by app.py\<close>

text \<open>
  A Python \<open>str\<close> is a \<open>string\<close> whose characters are the code points below 256; the
  non-ASCII characters of the literals of app.py are written in ASCII (\<open>CO2\<close> for the
  subscript form, \<open>deg\<close> for the degree sign, \<open>-\<close> for the dashes, \<open>x\<close> for the
  multiplication sign, \<open>...\<close> for the ellipsis). A Python \<open>float\<close> is a \<open>real\<close>:
  rounding, infinities and NaN are not represented. A Python \<open>int\<close> is an \<open>int\<close>.

  Exceptions are values of \<open>error\<close>; a function that can raise returns \<open>error + 'a\<close>
  with \<open>Inl\<close> the exception that leaves it. The names are those of app.py, without
  the leading underscore of \<open>_http_get_text\<close>, \<open>_refresh_worker\<close>, \<open>_poll_queue\<close>,
  \<open>_set_card\<close>, \<open>_q\<close> and \<open>_refresh_in_flight\<close>.
\<close>

datatype error =
    RequestException
  | HTTPError nat
  | CsvError
  | ValueError string
  | OverflowError
  | RuntimeError string
  | KeyError string

text \<open>
  \<open>str.isspace\<close> on code points below 256: tab, the line breaks, the separators
  1c..1f, space, NEL (85) and the no-break space (a0).
\<close>

definition isspace :: "char \<Rightarrow> bool" where
  "isspace c = (of_char c \<in> {9, 10, 11, 12, 13, 28, 29, 30, 31, 32, 133, 160 :: nat})"

definition strip :: "string \<Rightarrow> string" where
  "strip s = rev (dropWhile isspace (rev (dropWhile isspace s)))"

definition startswith :: "string \<Rightarrow> string \<Rightarrow> bool" where
  "startswith s p = (take (length p) s = p)"

text \<open>\<open>s.split(sep)\<close> for a one-character separator: never the empty list.\<close>

fun split :: "char \<Rightarrow> string \<Rightarrow> string list" where
  "split sep [] = [[]]"
| "split sep (c # cs) =
     (if c = sep then [] # split sep cs
      else (case split sep cs of
              [] \<Rightarrow> [[c]]
            | p # ps \<Rightarrow> (c # p) # ps))"

text \<open>
  \<open>str.splitlines\<close>: a line ends at LF, CR, CR LF, VT, FF, FS, GS, RS or NEL; no
  empty last line after a final line break. \<open>cur\<close> is the line read so far, in
  reverse; \<open>cr\<close> says that the last character was a CR, whose LF is skipped.
\<close>

definition is_linebreak :: "char \<Rightarrow> bool" where
  "is_linebreak c = (of_char c \<in> {10, 11, 12, 13, 28, 29, 30, 133 :: nat})"

fun lines_from :: "string \<Rightarrow> bool \<Rightarrow> string \<Rightarrow> string list" where
  "lines_from cur cr [] = (if cur = [] then [] else [rev cur])"
| "lines_from cur cr (c # cs) =
     (if cr \<and> c = CHR 0x0A then lines_from [] False cs
      else if is_linebreak c then rev cur # lines_from [] (c = CHR 0x0D) cs
      else lines_from (c # cur) False cs)"

definition splitlines :: "string \<Rightarrow> string list" where
  "splitlines s = lines_from [] False s"

text \<open>
  \<open>max(xs, key=key)\<close> on a non-empty list \<open>x # xs\<close>: the first element whose key
  is maximal (a later element replaces the best one only when its key is greater).
\<close>

fun max_key :: "('a \<Rightarrow> 'k::linorder) \<Rightarrow> 'a \<Rightarrow> 'a list \<Rightarrow> 'a" where
  "max_key key best [] = best"
| "max_key key best (x # xs) = max_key key (if key best < key x then x else best) xs"

subsection \<open>The library functions app.py calls\<close>

text \<open>
  A row of \<open>csv.DictReader\<close>: \<open>row k = None\<close> when \<open>k\<close> is not a key of the
  dictionary, \<open>Some None\<close> when its value is Python's \<open>None\<close> (a line shorter than the
  header), \<open>Some (Some v)\<close> when its value is the string \<open>v\<close>.
\<close>

type_synonym row = "string \<Rightarrow> string option option"

text \<open>
  The built-ins \<open>int\<close> and \<open>float\<close> on a string and \<open>csv.DictReader\<close> are not code of
  the repository: the functions of app.py take them as a parameter, and the theorems
  hold for every choice of them. \<open>None\<close> is the \<open>ValueError\<close> of \<open>int\<close> and
  \<open>float\<close>; \<open>DictReader\<close> gives the rows it yields or the exception it raises while
  the rows are read.
\<close>

record pylib =
  int_of_str :: "string \<Rightarrow> int option"
  float_of_str :: "string \<Rightarrow> real option"
  DictReader :: "string \<Rightarrow> error + row list"

subsection \<open>datetime\<close>

text \<open>
  \<open>datetime(year, month, day)\<close> is a date at midnight; naive datetimes compare by
  year, month, day, which is the lexicographic order of the triple. The constructor
  raises \<open>OverflowError\<close> for an argument outside the C \<open>int\<close> range and
  \<open>ValueError\<close> for a year outside 1..9999, a month outside 1..12 or a day outside
  the month (the messages are Python's, without the number they quote).
\<close>

type_synonym datetime = "int \<times> int \<times> int"

definition is_leap :: "int \<Rightarrow> bool" where
  "is_leap y = (y mod 4 = 0 \<and> (y mod 100 \<noteq> 0 \<or> y mod 400 = 0))"

definition days_in_month :: "int \<Rightarrow> int \<Rightarrow> int" where
  "days_in_month y m =
     (if m = 2 then (if is_leap y then 29 else 28)
      else if m = 4 \<or> m = 6 \<or> m = 9 \<or> m = 11 then 30
      else 31)"

definition c_int :: "int \<Rightarrow> bool" where
  "c_int n = (- 2147483648 \<le> n \<and> n \<le> 2147483647)"

definition mk_datetime :: "int \<Rightarrow> int \<Rightarrow> int \<Rightarrow> error + datetime" where
  "mk_datetime y m d =
     (if \<not> c_int y \<or> \<not> c_int m \<or> \<not> c_int d then Inl OverflowError
      else if y < 1 \<or> 9999 < y then Inl (ValueError ''year is out of range'')
      else if m < 1 \<or> 12 < m then Inl (ValueError ''month must be in 1..12'')
      else if d < 1 \<or> days_in_month y m < d then
        Inl (ValueError ''day is out of range for month'')
      else Inr (y, m, d))"

section \<open>Data sources and constants\<close>

definition NOAA_DAILY_CSV :: string where
  "NOAA_DAILY_CSV = ''https://gml.noaa.gov/webdata/ccgg/trends/co2/co2_daily_mlo.csv''"

definition OWID_CO2_CSV :: string where
  "OWID_CO2_CSV = ''https://raw.githubusercontent.com/owid/co2-data/master/owid-co2-data.csv''"

definition PPM_TO_GTCO2_IN_ATMOSPHERE :: real where
  "PPM_TO_GTCO2_IN_ATMOSPHERE = 7.80432"

definition PREINDUSTRIAL_PPM :: real where
  "PREINDUSTRIAL_PPM = 280.0"

text \<open>The dictionary \<open>BUDGETS_GTCO2\<close>, in the order of its entries.\<close>

definition BUDGETS_GTCO2 :: "(string \<times> real) list" where
  "BUDGETS_GTCO2 =
     [(''1.5degC budget (50% chance) ~580 GtCO2'', 580.0),
      (''1.5degC budget (66% chance) ~420 GtCO2'', 420.0)]"

record Co2Snapshot =
  date :: datetime
  ppm :: real

section \<open>The fetchers\<close>

text \<open>
  What \<open>requests.get\<close> does for a URL is an input of the model: the call raises
  (\<open>Unreachable\<close>: no connection, a timeout) or gives a response with a status code
  and a text. \<open>raise_for_status\<close> raises \<open>HTTPError\<close> for the codes 400..599.
\<close>

datatype http_reply = Unreachable | Reply nat string

type_synonym network = "string \<Rightarrow> http_reply"

definition http_get_text :: "network \<Rightarrow> string \<Rightarrow> error + string" where
  "http_get_text net url =
     (case net url of
        Unreachable \<Rightarrow> Inl RequestException
      | Reply status body \<Rightarrow>
          if 400 \<le> status \<and> status < 600 then Inl (HTTPError status) else Inr body)"

text \<open>
  One turn of the loop of \<open>fetch_latest_noaa_daily_ppm\<close>: the rows after the line,
  or the exception of \<open>datetime(year, month, day)\<close>, which no handler catches.
\<close>

definition noaa_line ::
  "pylib \<Rightarrow> string \<Rightarrow> (datetime \<times> real) list \<Rightarrow> error + (datetime \<times> real) list" where
  "noaa_line L line0 rows =
     (let line = strip line0 in
      if line = [] \<or> startswith line ''#'' then Inr rows
      else
        let parts = map strip (split CHR '','' line) in
        if length parts < 5 then Inr rows
        else
          (case (int_of_str L (parts ! 0), int_of_str L (parts ! 1),
                 int_of_str L (parts ! 2), float_of_str L (parts ! 4)) of
             (Some year, Some month, Some day, Some avg) \<Rightarrow>
               if avg \<le> 0 then Inr rows
               else (case mk_datetime year month day of
                       Inl e \<Rightarrow> Inl e
                     | Inr dt \<Rightarrow> Inr (rows @ [(dt, avg)]))
           | _ \<Rightarrow> Inr rows))"

fun noaa_loop ::
  "pylib \<Rightarrow> string list \<Rightarrow> (datetime \<times> real) list \<Rightarrow> error + (datetime \<times> real) list" where
  "noaa_loop L [] rows = Inr rows"
| "noaa_loop L (line # rest) rows =
     (case noaa_line L line rows of
        Inl e \<Rightarrow> Inl e
      | Inr rows' \<Rightarrow> noaa_loop L rest rows')"

definition fetch_latest_noaa_daily_ppm :: "pylib \<Rightarrow> network \<Rightarrow> error + Co2Snapshot" where
  "fetch_latest_noaa_daily_ppm L net =
     (case http_get_text net NOAA_DAILY_CSV of
        Inl e \<Rightarrow> Inl e
      | Inr text \<Rightarrow>
          (case noaa_loop L (splitlines text) [] of
             Inl e \<Rightarrow> Inl e
           | Inr [] \<Rightarrow> Inl (RuntimeError ''No valid rows found in NOAA daily CO2 file.'')
           | Inr (r # rs) \<Rightarrow>
               (case max_key fst r rs of (dt, v) \<Rightarrow> Inr \<lparr>date = dt, ppm = v\<rparr>)))"

text \<open>
  One turn of the loop of \<open>fetch_world_emissions_owid\<close>. \<open>row.get\<close> gives \<open>None\<close>
  for a missing key; \<open>int(row["year"])\<close> raises \<open>KeyError\<close> for a missing key,
  \<open>TypeError\<close> for the value \<open>None\<close> and \<open>ValueError\<close> for a string that is no
  integer, and the handler catches every \<open>Exception\<close>.
\<close>

definition owid_row ::
  "pylib \<Rightarrow> int \<Rightarrow> int \<Rightarrow> row \<Rightarrow> (int \<times> real) list \<Rightarrow> (int \<times> real) list" where
  "owid_row L start_year end_year row out =
     (if row ''country'' \<noteq> Some (Some ''World'') then out
      else
        (case (case row ''year'' of
                 Some (Some y) \<Rightarrow> int_of_str L y
               | _ \<Rightarrow> None) of
           None \<Rightarrow> out
         | Some year \<Rightarrow>
             if year < start_year \<or> year > end_year then out
             else
               (case row ''co2'' of
                  Some (Some co2_mt) \<Rightarrow>
                    if co2_mt = [] then out
                    else
                      (case float_of_str L co2_mt of
                         None \<Rightarrow> out
                       | Some co2_mt_f \<Rightarrow> out @ [(year, co2_mt_f / 1000.0)])
                | _ \<Rightarrow> out)))"

fun owid_loop ::
  "pylib \<Rightarrow> int \<Rightarrow> int \<Rightarrow> row list \<Rightarrow> (int \<times> real) list \<Rightarrow> (int \<times> real) list" where
  "owid_loop L start_year end_year [] out = out"
| "owid_loop L start_year end_year (row # rest) out =
     owid_loop L start_year end_year rest (owid_row L start_year end_year row out)"

text \<open>
  \<open>out.sort(key=lambda x: x[0])\<close> is a stable sort by year: \<open>sort_key fst\<close>, which
  inserts each element before the first one with a key that is not smaller.
\<close>

definition fetch_world_emissions_owid ::
  "pylib \<Rightarrow> network \<Rightarrow> int \<Rightarrow> int \<Rightarrow> error + (int \<times> real) list" where
  "fetch_world_emissions_owid L net start_year end_year =
     (case http_get_text net OWID_CO2_CSV of
        Inl e \<Rightarrow> Inl e
      | Inr text \<Rightarrow>
          (case DictReader L text of
             Inl e \<Rightarrow> Inl e
           | Inr reader \<Rightarrow> Inr (sort_key fst (owid_loop L start_year end_year reader []))))"

section \<open>Derived quantities\<close>

definition gtco2_in_atmosphere_from_ppm :: "real \<Rightarrow> real" where
  "gtco2_in_atmosphere_from_ppm p = p * PPM_TO_GTCO2_IN_ATMOSPHERE"

text \<open>The local variables of \<open>App.render\<close>, each a function of what it is computed from.\<close>

definition above_pre :: "real \<Rightarrow> real" where
  "above_pre p = p - PREINDUSTRIAL_PPM"

text \<open>
  \<open>BUDGETS_GTCO2.get(budget_label, list(BUDGETS_GTCO2.values())[0])\<close>: the keys of the
  literal are distinct, so \<open>map_of\<close> is the lookup of the dictionary.
\<close>

definition budget_gt :: "string \<Rightarrow> real" where
  "budget_gt budget_label =
     (case map_of BUDGETS_GTCO2 budget_label of
        Some v \<Rightarrow> v
      | None \<Rightarrow> map snd BUDGETS_GTCO2 ! 0)"

text \<open>\<open>sum\<close> adds from the left, starting at 0.\<close>

definition used_gt :: "(int \<times> real) list \<Rightarrow> real" where
  "used_gt emissions = (if emissions \<noteq> [] then foldl (+) 0 (map snd emissions) else 0.0)"

definition remaining_gt :: "string \<Rightarrow> (int \<times> real) list \<Rightarrow> real" where
  "remaining_gt budget_label emissions = budget_gt budget_label - used_gt emissions"

section \<open>The application\<close>

text \<open>
  A formatted string is kept as the list of its pieces: literal text, and for each
  replacement field the value formatted together with its format (\<open>Fixed n x\<close> is
  \<open>{x:.nf}\<close>, \<open>Grouped n x\<close> is \<open>{x:,.nf}\<close>, \<open>Num i\<close> is \<open>{i}\<close>, \<open>DateOf d\<close> is
  \<open>{d.date()}\<close>).
\<close>

datatype piece =
    Lit string
  | Fixed nat real
  | Grouped nat real
  | Num int
  | DateOf datetime

type_synonym fstring = "piece list"

text \<open>
  \<open>self.cards\<close> maps a title to its two labels; the model keeps the text each label
  shows. A message of the queue is the tuple the worker puts: \<open>Ok\<close> for the tag
  \<open>"ok"\<close>, \<open>Err\<close> for \<open>"err"\<close> with the exception whose traceback the tuple carries.
\<close>

type_synonym cards = "string \<Rightarrow> (fstring \<times> fstring) option"

datatype msg =
    Ok Co2Snapshot "(int \<times> real) list" int int string
  | Err error

datatype widget_state = normal | disabled

text \<open>
  The fields of \<open>App\<close> the methods read and write. \<open>status\<close> and \<open>refresh_btn\<close> are the
  text of the status label and the state of the button; \<open>dialogs\<close> lists the calls of
  \<open>messagebox.showerror\<close>; \<open>threads\<close> lists the arguments of the worker threads that
  were started and have not yet put their message.
\<close>

record App =
  last_snapshot :: "Co2Snapshot option"
  budget_choice :: string
  budget_start_year :: string
  q :: "msg list"
  refresh_in_flight :: bool
  status :: fstring
  refresh_btn :: widget_state
  cards :: cards
  dialogs :: "(string \<times> error) list"
  threads :: "(int \<times> int \<times> string) list"

definition then_do :: "error + 'a \<Rightarrow> ('a \<Rightarrow> error + 'b) \<Rightarrow> error + 'b" where
  "then_do r f = (case r of Inl e \<Rightarrow> Inl e | Inr x \<Rightarrow> f x)"

text \<open>\<open>self.cards[title]\<close> raises \<open>KeyError\<close> for a title the dictionary does not hold.\<close>

definition set_card :: "string \<Rightarrow> fstring \<Rightarrow> fstring \<Rightarrow> cards \<Rightarrow> error + cards" where
  "set_card title main sub cs =
     (case cs title of
        None \<Rightarrow> Inl (KeyError title)
      | Some _ \<Rightarrow> Inr (cs(title \<mapsto> (main, sub))))"

definition render ::
  "Co2Snapshot \<Rightarrow> (int \<times> real) list \<Rightarrow> int \<Rightarrow> int \<Rightarrow> string \<Rightarrow> cards \<Rightarrow> error + cards" where
  "render snap emissions start_year end_year budget_label cs =
     then_do (set_card ''Latest CO2 (ppm)''
                [Fixed 2 (ppm snap), Lit '' ppm'']
                [Lit ''NOAA Mauna Loa daily mean, latest valid date: '', DateOf (date snap)] cs)
     (\<lambda>cs. then_do (set_card ''CO2 in atmosphere (GtCO2)''
                [Grouped 0 (gtco2_in_atmosphere_from_ppm (ppm snap)), Lit '' GtCO2'']
                [Lit ''Derived: '', Fixed 2 (ppm snap), Lit '' x '',
                 Fixed 5 PPM_TO_GTCO2_IN_ATMOSPHERE, Lit '' GtCO2/ppm''] cs)
     (\<lambda>cs. then_do (set_card ''Above pre-industrial (ppm)''
                [Fixed 2 (above_pre (ppm snap)), Lit '' ppm'']
                [Lit ''Using '', Fixed 0 PREINDUSTRIAL_PPM,
                 Lit '' ppm as pre-industrial reference''] cs)
     (\<lambda>cs. then_do (set_card ''Estimated budget used (GtCO2)''
                [Grouped 1 (used_gt emissions), Lit '' GtCO2'']
                [Lit ''Sum of annual global emissions from '', Num start_year, Lit ''-'',
                 Num end_year, Lit '' (OWID)''] cs)
     (\<lambda>cs. set_card ''Estimated budget remaining (GtCO2)''
                [Grouped 1 (remaining_gt budget_label emissions), Lit '' GtCO2'']
                [Lit ''Negative means overshoot (would require net-negative emissions / removals)'']
                cs))))"

text \<open>
  \<open>_parse_start_year_main_thread\<close>; \<open>nowy\<close> is \<open>datetime.now().year\<close>, which
  \<open>refresh_async\<close> reads again for \<open>end_year\<close>: one call sees one year.
\<close>

definition parse_start_year_main_thread :: "pylib \<Rightarrow> int \<Rightarrow> App \<Rightarrow> int" where
  "parse_start_year_main_thread L nowy self =
     (let raw = strip (budget_start_year self);
          y = (case int_of_str L raw of Some n \<Rightarrow> n | None \<Rightarrow> 2020);
          y = (if y < 1990 then 1990 else y);
          y = (if y > nowy then nowy else y)
      in y)"

definition refresh_async :: "pylib \<Rightarrow> int \<Rightarrow> App \<Rightarrow> App" where
  "refresh_async L nowy self =
     (if refresh_in_flight self then self
      else
        let start_year = parse_start_year_main_thread L nowy self;
            budget_label = budget_choice self;
            end_year = nowy
        in self\<lparr>refresh_in_flight := True,
                refresh_btn := disabled,
                status := [Lit ''Refreshing...''],
                threads := threads self @ [(start_year, end_year, budget_label)]\<rparr>)"

text \<open>
  \<open>_refresh_worker\<close> runs in its thread and touches the queue only: it maps the
  queue to the queue after its one \<open>put\<close>. \<open>net\<close> is the network as this run sees it.
\<close>

definition refresh_worker ::
  "pylib \<Rightarrow> network \<Rightarrow> int \<Rightarrow> int \<Rightarrow> string \<Rightarrow> msg list \<Rightarrow> msg list" where
  "refresh_worker L net start_year end_year budget_label queue =
     (case fetch_latest_noaa_daily_ppm L net of
        Inl e \<Rightarrow> queue @ [Err e]
      | Inr snap \<Rightarrow>
          (case fetch_world_emissions_owid L net start_year end_year of
             Inl e \<Rightarrow> queue @ [Err e]
           | Inr emissions \<Rightarrow>
               queue @ [Ok snap emissions start_year end_year budget_label]))"

text \<open>
  \<open>_poll_queue\<close>; \<open>stamp\<close> is the text of \<open>datetime.now().strftime(...)\<close>. \<open>Inl e\<close>: the
  callback raised \<open>e\<close> (only \<open>render\<close> can). The callback schedules itself again in
  every branch that returns.
\<close>

definition poll_queue :: "string \<Rightarrow> App \<Rightarrow> error + App" where
  "poll_queue stamp self =
     (case q self of
        [] \<Rightarrow> Inr self
      | m # rest \<Rightarrow>
          (case m of
             Ok snap emissions start_year end_year budget_label \<Rightarrow>
               (case render snap emissions start_year end_year budget_label (cards self) of
                  Inl e \<Rightarrow> Inl e
                | Inr cs \<Rightarrow>
                    Inr (self\<lparr>q := rest,
                              last_snapshot := Some snap,
                              cards := cs,
                              status := [Lit ''Updated '', Lit stamp],
                              refresh_in_flight := False,
                              refresh_btn := normal\<rparr>))
           | Err tb \<Rightarrow>
               Inr (self\<lparr>q := rest,
                         status := [Lit ''Error''],
                         dialogs := dialogs self @ [(''Refresh failed'', tb)],
                         refresh_in_flight := False,
                         refresh_btn := normal\<rparr>)))"

definition titles :: "string list" where
  "titles =
     [''Latest CO2 (ppm)'',
      ''CO2 in atmosphere (GtCO2)'',
      ''Above pre-industrial (ppm)'',
      ''Estimated budget used (GtCO2)'',
      ''Estimated budget remaining (GtCO2)'']"

text \<open>\<open>App.__init__\<close>: the fields, then the first \<open>refresh_async\<close>.\<close>

definition App_init :: "pylib \<Rightarrow> int \<Rightarrow> App" where
  "App_init L nowy =
     refresh_async L nowy
       \<lparr>last_snapshot = None,
        budget_choice = map fst BUDGETS_GTCO2 ! 0,
        budget_start_year = ''2020'',
        q = [],
        refresh_in_flight = False,
        status = [Lit ''Ready''],
        refresh_btn = normal,
        cards = map_of (map (\<lambda>title. (title, ([Lit ''-''], [Lit []]))) titles),
        dialogs = [],
        threads = []\<rparr>"

subsection \<open>Runs of the application\<close>

text \<open>
  The callbacks of the main thread run one at a time, and a worker meets the rest of
  the program in its one \<open>put\<close> on the queue; a run is a sequence of these events.
  \<open>Refresh nowy\<close> is a call of \<open>refresh_async\<close>, \<open>Finish i net\<close> the \<open>put\<close> of the
  \<open>i\<close>-th running worker (nothing when there is none), \<open>Poll stamp\<close> a call of
  \<open>_poll_queue\<close>; \<open>Choose\<close> and \<open>Type\<close> are the user's edits of the two Tk variables.
\<close>

datatype event =
    Refresh int
  | Finish nat network
  | Poll string
  | Choose string
  | Type string

definition step :: "pylib \<Rightarrow> event \<Rightarrow> App \<Rightarrow> error + App" where
  "step L ev self =
     (case ev of
        Refresh nowy \<Rightarrow> Inr (refresh_async L nowy self)
      | Finish i net \<Rightarrow>
          if i < length (threads self) then
            (case threads self ! i of
               (start_year, end_year, budget_label) \<Rightarrow>
                 Inr (self\<lparr>threads := take i (threads self) @ drop (Suc i) (threads self),
                           q := refresh_worker L net start_year end_year budget_label (q self)\<rparr>))
          else Inr self
      | Poll stamp \<Rightarrow> poll_queue stamp self
      | Choose label \<Rightarrow> Inr (self\<lparr>budget_choice := label\<rparr>)
      | Type raw \<Rightarrow> Inr (self\<lparr>budget_start_year := raw\<rparr>))"

fun run :: "pylib \<Rightarrow> event list \<Rightarrow> App \<Rightarrow> error + App" where
  "run L [] self = Inr self"
| "run L (ev # evs) self =
     (case step L ev self of
        Inl e \<Rightarrow> Inl e
      | Inr self' \<Rightarrow> run L evs self')"

section \<open>A plain reading of the library functions\<close>

text \<open>
  For the examples: \<open>int\<close> and \<open>float\<close> on ASCII decimal numerals (surrounding
  white space and a sign allowed; no underscores, exponents, \<open>inf\<close> or \<open>nan\<close>), and
  \<open>csv.DictReader\<close> on text without quotes whose lines end in LF (blank lines are
  skipped, a short line gives \<open>None\<close> for the missing fields, the fields beyond the
  header are dropped).
\<close>

definition digit :: "char \<Rightarrow> int option" where
  "digit c =
     (let n = (of_char c :: nat) in if 48 \<le> n \<and> n \<le> 57 then Some (int n - 48) else None)"

fun digits :: "int \<Rightarrow> string \<Rightarrow> int option" where
  "digits acc [] = Some acc"
| "digits acc (c # cs) =
     (case digit c of
        None \<Rightarrow> None
      | Some d \<Rightarrow> digits (10 * acc + d) cs)"

definition unsigned_int :: "string \<Rightarrow> int option" where
  "unsigned_int s = (if s = [] then None else digits 0 s)"

definition unsigned_float :: "string \<Rightarrow> real option" where
  "unsigned_float s =
     (case split CHR ''.'' s of
        [a] \<Rightarrow> map_option real_of_int (unsigned_int a)
      | [a, b] \<Rightarrow>
          if a = [] \<and> b = [] then None
          else
            (case (digits 0 a, digits 0 b) of
               (Some i, Some f) \<Rightarrow> Some (real_of_int i + real_of_int f / 10 ^ length b)
             | _ \<Rightarrow> None)
      | _ \<Rightarrow> None)"

definition signed :: "(string \<Rightarrow> 'a::uminus option) \<Rightarrow> string \<Rightarrow> 'a option" where
  "signed f s0 =
     (case strip s0 of
        [] \<Rightarrow> None
      | c # cs \<Rightarrow>
          if c = CHR ''-'' then map_option uminus (f cs)
          else if c = CHR ''+'' then f cs
          else f (c # cs))"

definition row_of :: "string list \<Rightarrow> string list \<Rightarrow> row" where
  "row_of fieldnames vals =
     map_of (rev (zip fieldnames
                    (map Some vals @ replicate (length fieldnames - length vals) None)))"

definition plain_DictReader :: "string \<Rightarrow> error + row list" where
  "plain_DictReader text =
     (case filter (\<lambda>l. l \<noteq> []) (splitlines text) of
        [] \<Rightarrow> Inr []
      | header # rest \<Rightarrow>
          Inr (map (\<lambda>l. row_of (split CHR '','' header) (split CHR '','' l)) rest))"

definition plain_lib :: pylib where
  "plain_lib =
     \<lparr>int_of_str = signed unsigned_int,
      float_of_str = signed unsigned_float,
      DictReader = plain_DictReader\<rparr>"

text \<open>A network that answers both URLs with status 200 and the given texts.\<close>

definition serving :: "string \<Rightarrow> string \<Rightarrow> network" where
  "serving noaa owid url = Reply 200 (if url = NOAA_DAILY_CSV then noaa else owid)"

text \<open>A network without connection, and two small files for the examples.\<close>

definition offline :: network where
  "offline url = Unreachable"

definition example_noaa :: string where
  "example_noaa =
     ''# year,month,day,decimal,ppm\<newline>2024,1,4,2024.0096,420.5\<newline>2024,1,5,2024.0123,420.7\<newline>\<newline>2024,1,7,2024.0178,-999.99\<newline>2024,1,6,2024.0150,n/a''"

definition example_owid :: string where
  "example_owid =
     ''country,year,co2\<newline>World,2021,37000.5\<newline>France,2021,300\<newline>World,2020,35000\<newline>World,2022,abc\<newline>World,2019,5\<newline>World,2023''"

section \<open>The properties in the words of the specification\<close>

text \<open>
  A concentration line survives the filters when it is neither blank nor a comment,
  has at least five fields, its year, month, day and daily mean parse, and the mean
  is positive; \<open>noaa_fields\<close> gives the four values of such a line.
\<close>

definition noaa_fields :: "pylib \<Rightarrow> string \<Rightarrow> (int \<times> int \<times> int \<times> real) option" where
  "noaa_fields L line0 =
     (let line = strip line0; parts = map strip (split CHR '','' line) in
      if line = [] \<or> startswith line ''#'' \<or> length parts < 5 then None
      else
        (case (int_of_str L (parts ! 0), int_of_str L (parts ! 1),
               int_of_str L (parts ! 2), float_of_str L (parts ! 4)) of
           (Some year, Some month, Some day, Some avg) \<Rightarrow>
             if 0 < avg then Some (year, month, day, avg) else None
         | _ \<Rightarrow> None))"

text \<open>
  An emissions row is selected when its entity is \<open>World\<close>, its year parses and lies
  in the range, and its emissions field is present, not empty and parses;
  \<open>selected\<close> gives the year and the emissions in gigatonnes of such a row.
\<close>

definition selected :: "pylib \<Rightarrow> int \<Rightarrow> int \<Rightarrow> row \<Rightarrow> (int \<times> real) option" where
  "selected L start_year end_year row =
     (case (row ''country'', row ''year'', row ''co2'') of
        (Some (Some c), Some (Some y), Some (Some v)) \<Rightarrow>
          (case (int_of_str L y, float_of_str L v) of
             (Some year, Some mt) \<Rightarrow>
               if c = ''World'' \<and> start_year \<le> year \<and> year \<le> end_year \<and> v \<noteq> []
               then Some (year, mt / 1000)
               else None
           | _ \<Rightarrow> None)
      | _ \<Rightarrow> None)"

text \<open>
  The coordinator's invariant: the running workers and the undrained messages are
  one in all while a refresh is in flight and none otherwise, and the five cards
  exist.
\<close>

definition coordinated :: "App \<Rightarrow> bool" where
  "coordinated self =
     (length (threads self) + length (q self) = (if refresh_in_flight self then 1 else 0)
      \<and> set titles \<subseteq> dom (cards self))"

section \<open>What render shows\<close>

lemma set_card_Inr:
  "set_card title main sub cs = Inr cs' \<longleftrightarrow> title \<in> dom cs \<and> cs' = cs(title \<mapsto> (main, sub))"
  by (auto simp: set_card_def split: option.splits)

lemma then_do_Inr: "then_do r f = Inr y \<longleftrightarrow> (\<exists>x. r = Inr x \<and> f x = Inr y)"
  by (cases r) (auto simp: then_do_def)

lemma render_Inr:
  assumes "render snap emissions start_year end_year budget_label cs = Inr cs'"
  shows "cs' = cs
    (''Latest CO2 (ppm)'' \<mapsto>
       ([Fixed 2 (ppm snap), Lit '' ppm''],
        [Lit ''NOAA Mauna Loa daily mean, latest valid date: '', DateOf (date snap)]),
     ''CO2 in atmosphere (GtCO2)'' \<mapsto>
       ([Grouped 0 (gtco2_in_atmosphere_from_ppm (ppm snap)), Lit '' GtCO2''],
        [Lit ''Derived: '', Fixed 2 (ppm snap), Lit '' x '',
         Fixed 5 PPM_TO_GTCO2_IN_ATMOSPHERE, Lit '' GtCO2/ppm'']),
     ''Above pre-industrial (ppm)'' \<mapsto>
       ([Fixed 2 (above_pre (ppm snap)), Lit '' ppm''],
        [Lit ''Using '', Fixed 0 PREINDUSTRIAL_PPM, Lit '' ppm as pre-industrial reference'']),
     ''Estimated budget used (GtCO2)'' \<mapsto>
       ([Grouped 1 (used_gt emissions), Lit '' GtCO2''],
        [Lit ''Sum of annual global emissions from '', Num start_year, Lit ''-'',
         Num end_year, Lit '' (OWID)'']),
     ''Estimated budget remaining (GtCO2)'' \<mapsto>
       ([Grouped 1 (remaining_gt budget_label emissions), Lit '' GtCO2''],
        [Lit ''Negative means overshoot (would require net-negative emissions / removals)'']))"
  using assms unfolding render_def then_do_Inr set_card_Inr by blast

lemma render_total:
  assumes "set titles \<subseteq> dom cs"
  shows "\<exists>cs'. render snap emissions start_year end_year budget_label cs = Inr cs'"
proof -
  have t: "''Latest CO2 (ppm)'' \<in> dom cs" "''CO2 in atmosphere (GtCO2)'' \<in> dom cs"
    "''Above pre-industrial (ppm)'' \<in> dom cs" "''Estimated budget used (GtCO2)'' \<in> dom cs"
    "''Estimated budget remaining (GtCO2)'' \<in> dom cs"
    using assms by (auto simp: titles_def)
  show ?thesis
    unfolding render_def then_do_Inr set_card_Inr using t by (simp add: dom_def)
qed

lemma render_dom:
  assumes "render snap emissions start_year end_year budget_label cs = Inr cs'"
  shows "dom cs' = dom cs"
  using assms unfolding render_def then_do_Inr set_card_Inr by auto

lemma foldl_add_sum_list: "foldl (+) a xs = a + sum_list (xs :: real list)"
  by (induction xs arbitrary: a) auto

lemma used_gt_sum: "used_gt emissions = sum_list (map snd emissions)"
  by (simp add: used_gt_def foldl_add_sum_list)

lemma init_cards_dom: "set titles \<subseteq> dom (cards (App_init L nowy))"
  by (simp add: App_init_def refresh_async_def Let_def titles_def dom_def)

text \<open>
  Claim C8. For every ppm value, the mass in the atmosphere is the ppm value times
  the constant 7.80432 and the excess over the baseline is the ppm value minus 280.0;
  these are the values \<open>render\<close> puts on the two cards.
\<close>

theorem atmospheric_mass_and_baseline:
  "gtco2_in_atmosphere_from_ppm p = p * 7.80432
   \<and> above_pre p = p - 280.0
   \<and> (render snap emissions start_year end_year budget_label cs = Inr cs' \<longrightarrow>
        map_option fst (cs' ''CO2 in atmosphere (GtCO2)'')
          = Some [Grouped 0 (ppm snap * 7.80432), Lit '' GtCO2'']
        \<and> map_option fst (cs' ''Above pre-industrial (ppm)'')
          = Some [Fixed 2 (ppm snap - 280.0), Lit '' ppm''])"
proof -
  have mass: "gtco2_in_atmosphere_from_ppm x = x * 7.80432" for x
    by (simp add: gtco2_in_atmosphere_from_ppm_def PPM_TO_GTCO2_IN_ATMOSPHERE_def)
  have base: "above_pre x = x - 280.0" for x
    by (simp add: above_pre_def PREINDUSTRIAL_PPM_def)
  have "map_option fst (cs' ''CO2 in atmosphere (GtCO2)'')
          = Some [Grouped 0 (ppm snap * 7.80432), Lit '' GtCO2'']
        \<and> map_option fst (cs' ''Above pre-industrial (ppm)'')
          = Some [Fixed 2 (ppm snap - 280.0), Lit '' ppm'']"
    if "render snap emissions start_year end_year budget_label cs = Inr cs'"
    using render_Inr [OF that] by (simp add: mass base)
  with mass base show ?thesis by blast
qed

text \<open>The example: 420.7 ppm on the cards of a new application.\<close>

theorem atmospheric_mass_and_baseline_witness:
  "gtco2_in_atmosphere_from_ppm 420.7 = 3283.277424
   \<and> above_pre 420.7 = 140.7
   \<and> (\<exists>cs'. render \<lparr>date = (2024, 1, 5), ppm = 420.7\<rparr> [(2020, 35.0)] 2020 2024 []
              (cards (App_init plain_lib 2024)) = Inr cs'
        \<and> map_option fst (cs' ''CO2 in atmosphere (GtCO2)'')
          = Some [Grouped 0 3283.277424, Lit '' GtCO2'']
        \<and> map_option fst (cs' ''Above pre-industrial (ppm)'')
          = Some [Fixed 2 140.7, Lit '' ppm''])"
proof -
  obtain cs' where r: "render \<lparr>date = (2024, 1, 5), ppm = 420.7\<rparr> [(2020, 35.0)] 2020 2024 []
              (cards (App_init plain_lib 2024)) = Inr cs'"
    using render_total [OF init_cards_dom] by blast
  show ?thesis
    using r atmospheric_mass_and_baseline
      [of "420.7" "\<lparr>date = (2024, 1, 5), ppm = 420.7\<rparr>" "[(2020, 35.0)]" 2020 2024 "[]"
          "cards (App_init plain_lib 2024)" cs']
    by simp
qed

text \<open>
  Claim C9. For every label, the budget total is the value the table gives for the
  label when it is a key of the table, and the value of the first entry (580.0)
  otherwise; the lookup never fails.
\<close>

theorem budget_lookup_falls_back:
  "(budget_label \<in> fst ` set BUDGETS_GTCO2 \<longrightarrow>
      (budget_label, budget_gt budget_label) \<in> set BUDGETS_GTCO2)
   \<and> (budget_label \<notin> fst ` set BUDGETS_GTCO2 \<longrightarrow>
      budget_gt budget_label = snd (hd BUDGETS_GTCO2))
   \<and> budget_gt budget_label =
       (if budget_label = ''1.5degC budget (66% chance) ~420 GtCO2'' then 420.0 else 580.0)"
  by (auto simp: budget_gt_def BUDGETS_GTCO2_def)

text \<open>The example: the second key of the table, and a label that is no key.\<close>

theorem budget_lookup_falls_back_witness:
  "''1.5degC budget (66% chance) ~420 GtCO2'' \<in> fst ` set BUDGETS_GTCO2
   \<and> budget_gt ''1.5degC budget (66% chance) ~420 GtCO2'' = 420.0
   \<and> ''2degC budget'' \<notin> fst ` set BUDGETS_GTCO2
   \<and> budget_gt ''2degC budget'' = 580.0
   \<and> snd (hd BUDGETS_GTCO2) = 580.0"
  using budget_lookup_falls_back [of "''1.5degC budget (66% chance) ~420 GtCO2''"]
    budget_lookup_falls_back [of "''2degC budget''"]
  by (simp add: BUDGETS_GTCO2_def)

text \<open>
  Claim C7. The budget used is the sum of the emissions of the series (0 for the
  empty series); the budget remaining is the budget total minus the budget used,
  negative when more was used than the total; these are the values \<open>render\<close> puts
  on the two cards.
\<close>

theorem budget_used_and_remaining:
  "used_gt emissions = sum_list (map snd emissions)
   \<and> used_gt [] = 0
   \<and> remaining_gt budget_label emissions = budget_gt budget_label - used_gt emissions
   \<and> (budget_gt budget_label < used_gt emissions \<longrightarrow> remaining_gt budget_label emissions < 0)
   \<and> (render snap emissions start_year end_year budget_label cs = Inr cs' \<longrightarrow>
        map_option fst (cs' ''Estimated budget used (GtCO2)'')
          = Some [Grouped 1 (sum_list (map snd emissions)), Lit '' GtCO2'']
        \<and> map_option fst (cs' ''Estimated budget remaining (GtCO2)'')
          = Some [Grouped 1 (budget_gt budget_label - sum_list (map snd emissions)),
                  Lit '' GtCO2''])"
proof -
  have rem: "remaining_gt budget_label emissions = budget_gt budget_label - used_gt emissions"
    by (simp add: remaining_gt_def)
  have "map_option fst (cs' ''Estimated budget used (GtCO2)'')
          = Some [Grouped 1 (sum_list (map snd emissions)), Lit '' GtCO2'']
        \<and> map_option fst (cs' ''Estimated budget remaining (GtCO2)'')
          = Some [Grouped 1 (budget_gt budget_label - sum_list (map snd emissions)),
                  Lit '' GtCO2'']"
    if "render snap emissions start_year end_year budget_label cs = Inr cs'"
    using render_Inr [OF that] by (simp add: rem used_gt_sum)
  moreover have "used_gt [] = 0"
    by (simp add: used_gt_def)
  ultimately show ?thesis
    using rem used_gt_sum by auto
qed

text \<open>The example: 500.5 Gt used of a budget of 420 Gt.\<close>

theorem budget_used_and_remaining_witness:
  "used_gt [(2020, 300.0), (2021, 200.5)] = 500.5
   \<and> budget_gt ''1.5degC budget (66% chance) ~420 GtCO2'' = 420.0
   \<and> remaining_gt ''1.5degC budget (66% chance) ~420 GtCO2'' [(2020, 300.0), (2021, 200.5)]
       = - 80.5
   \<and> (\<exists>cs'. render \<lparr>date = (2024, 1, 5), ppm = 420.7\<rparr> [(2020, 300.0), (2021, 200.5)] 2020 2021
              ''1.5degC budget (66% chance) ~420 GtCO2'' (cards (App_init plain_lib 2024)) = Inr cs'
        \<and> map_option fst (cs' ''Estimated budget used (GtCO2)'')
          = Some [Grouped 1 500.5, Lit '' GtCO2'']
        \<and> map_option fst (cs' ''Estimated budget remaining (GtCO2)'')
          = Some [Grouped 1 (- 80.5), Lit '' GtCO2''])"
proof -
  obtain cs' where r: "render \<lparr>date = (2024, 1, 5), ppm = 420.7\<rparr> [(2020, 300.0), (2021, 200.5)]
      2020 2021 ''1.5degC budget (66% chance) ~420 GtCO2'' (cards (App_init plain_lib 2024)) = Inr cs'"
    using render_total [OF init_cards_dom] by blast
  have b: "budget_gt ''1.5degC budget (66% chance) ~420 GtCO2'' = 420.0"
    by (simp add: budget_gt_def BUDGETS_GTCO2_def)
  show ?thesis
    using r b budget_used_and_remaining
      [of "[(2020, 300.0), (2021, 200.5)]" "''1.5degC budget (66% chance) ~420 GtCO2''"
          "\<lparr>date = (2024, 1, 5), ppm = 420.7\<rparr>" 2020 2021 "cards (App_init plain_lib 2024)" cs']
    by simp
qed

section \<open>The refresh coordinator\<close>

lemma refresh_async_in_flight: "refresh_in_flight self \<Longrightarrow> refresh_async L nowy self = self"
  by (simp add: refresh_async_def)

lemma coordinated_init: "coordinated (App_init L nowy)"
  by (simp add: coordinated_def App_init_def refresh_async_def Let_def titles_def dom_def)

lemma coordinated_refresh_async:
  "coordinated self \<Longrightarrow> coordinated (refresh_async L nowy self)"
  by (auto simp: coordinated_def refresh_async_def Let_def split: if_splits)

lemma length_refresh_worker:
  "length (refresh_worker L net start_year end_year budget_label queue) = Suc (length queue)"
  by (simp add: refresh_worker_def split: sum.splits)

lemma coordinated_poll:
  assumes "coordinated self"
  shows "\<exists>self'. poll_queue stamp self = Inr self' \<and> coordinated self'"
proof (cases "q self")
  case Nil
  with assms show ?thesis by (simp add: poll_queue_def)
next
  case (Cons m rest)
  from assms Cons have fl: "refresh_in_flight self" and r: "rest = []" and t: "threads self = []"
    by (auto simp: coordinated_def split: if_splits)
  show ?thesis
  proof (cases m)
    case (Ok snap emissions start_year end_year budget_label)
    from assms obtain cs where
      cs: "render snap emissions start_year end_year budget_label (cards self) = Inr cs"
      using render_total unfolding coordinated_def by blast
    from render_dom [OF cs] assms have "set titles \<subseteq> dom cs"
      by (simp add: coordinated_def)
    with cs Cons Ok r t show ?thesis
      by (simp add: poll_queue_def coordinated_def)
  next
    case (Err tb)
    with assms Cons r t show ?thesis
      by (simp add: poll_queue_def coordinated_def)
  qed
qed

lemma coordinated_step:
  assumes "coordinated self"
  shows "\<exists>self'. step L ev self = Inr self' \<and> coordinated self'"
proof (cases ev)
  case (Refresh nowy)
  with coordinated_refresh_async [OF assms] show ?thesis by (simp add: step_def)
next
  case (Finish i net)
  show ?thesis
  proof (cases "i < length (threads self)")
    case True
    with assms have fl: "refresh_in_flight self"
      by (auto simp: coordinated_def split: if_splits)
    with assms have "length (threads self) + length (q self) = 1"
      by (simp add: coordinated_def)
    with True have l: "length (threads self) = 1" and lq: "length (q self) = 0"
      by linarith+
    from lq have qe: "q self = []" by simp
    from l obtain a where ts: "threads self = [a]"
      by (cases "threads self") auto
    with True have i: "i = 0" by simp
    obtain sy ey bl where a: "a = (sy, ey, bl)" by (cases a) auto
    let ?s = "self\<lparr>threads := [], q := refresh_worker L net sy ey bl []\<rparr>"
    from Finish ts i a qe have "step L ev self = Inr ?s"
      by (simp add: step_def)
    moreover from assms fl have "coordinated ?s"
      by (simp add: coordinated_def length_refresh_worker)
    ultimately show ?thesis by blast
  next
    case False
    with assms Finish show ?thesis by (simp add: step_def)
  qed
next
  case (Poll stamp)
  with coordinated_poll [OF assms] show ?thesis by (simp add: step_def)
next
  case (Choose label)
  with assms show ?thesis by (simp add: step_def coordinated_def)
next
  case (Type raw)
  with assms show ?thesis by (simp add: step_def coordinated_def)
qed

lemma coordinated_run:
  "coordinated self \<Longrightarrow> \<exists>self'. run L evs self = Inr self' \<and> coordinated self'"
proof (induction evs arbitrary: self)
  case Nil
  then show ?case by simp
next
  case (Cons ev evs)
  from coordinated_step [OF Cons.prems] obtain s1 where
    s1: "step L ev self = Inr s1" "coordinated s1" by blast
  from Cons.IH [OF s1(2)] s1(1) show ?case by simp
qed

lemma flag_reset_only_by_poll:
  assumes "step L ev self = Inr self'" "refresh_in_flight self" "\<not> refresh_in_flight self'"
  shows "(\<exists>stamp. ev = Poll stamp) \<and> q self \<noteq> [] \<and> q self' = tl (q self)"
  using assms
  by (cases ev)
     (auto simp: step_def refresh_async_def poll_queue_def
           split: if_splits prod.splits list.splits msg.splits sum.splits)

lemma finish_keeps_flag:
  "step L (Finish i net) self = Inr self' \<Longrightarrow> refresh_in_flight self' = refresh_in_flight self"
  by (auto simp: step_def split: if_splits prod.splits)

subsection \<open>The examples, evaluated\<close>

lemma example_noaa_fetch:
  "fetch_latest_noaa_daily_ppm plain_lib (serving example_noaa example_owid)
     = Inr \<lparr>date = (2024, 1, 5), ppm = 420.7\<rparr>"
  by (simp add: fetch_latest_noaa_daily_ppm_def http_get_text_def serving_def example_noaa_def
      NOAA_DAILY_CSV_def splitlines_def is_linebreak_def noaa_line_def strip_def isspace_def
      startswith_def plain_lib_def signed_def unsigned_int_def unsigned_float_def digit_def
      mk_datetime_def c_int_def days_in_month_def is_leap_def Let_def)

lemma example_owid_fetch:
  "fetch_world_emissions_owid plain_lib (serving example_noaa example_owid) 2020 2024
     = Inr [(2020, 35), (2021, 37.0005)]"
  by (simp add: fetch_world_emissions_owid_def http_get_text_def serving_def example_owid_def
      NOAA_DAILY_CSV_def OWID_CO2_CSV_def splitlines_def is_linebreak_def plain_DictReader_def
      row_of_def owid_row_def strip_def isspace_def plain_lib_def signed_def unsigned_int_def
      unsigned_float_def digit_def Let_def)

lemma offline_noaa_fetch: "fetch_latest_noaa_daily_ppm L offline = Inl RequestException"
  by (simp add: fetch_latest_noaa_daily_ppm_def http_get_text_def offline_def)

lemma init_state:
  "refresh_in_flight (App_init plain_lib 2024)"
  "threads (App_init plain_lib 2024) = [(2020, 2024, ''1.5degC budget (50% chance) ~580 GtCO2'')]"
  "q (App_init plain_lib 2024) = []"
  by (simp_all add: App_init_def refresh_async_def parse_start_year_main_thread_def Let_def
      BUDGETS_GTCO2_def strip_def isspace_def plain_lib_def signed_def unsigned_int_def digit_def)

lemma init_finish_offline:
  "step plain_lib (Finish 0 offline) (App_init plain_lib 2024)
     = Inr ((App_init plain_lib 2024)\<lparr>threads := [], q := [Err RequestException]\<rparr>)"
  by (simp add: step_def init_state refresh_worker_def offline_noaa_fetch)

lemma init_finish_serving:
  "step plain_lib (Finish 0 (serving example_noaa example_owid)) (App_init plain_lib 2024)
     = Inr ((App_init plain_lib 2024)
              \<lparr>threads := [],
               q := [Ok \<lparr>date = (2024, 1, 5), ppm = 420.7\<rparr> [(2020, 35), (2021, 37.0005)]
                        2020 2024 ''1.5degC budget (50% chance) ~580 GtCO2'']\<rparr>)"
  by (simp add: step_def init_state refresh_worker_def example_noaa_fetch example_owid_fetch)

subsection \<open>One refresh at a time\<close>

text \<open>
  Claim C1. A call of \<open>refresh_async\<close> while a refresh is in flight changes nothing:
  no worker is started and no message is put. In every run from the start of the
  application at most one worker runs and at most one message waits, and together
  they are one exactly while the flag is set. The flag is reset only by a call of
  \<open>_poll_queue\<close> that takes a message from the queue; the end of a worker leaves
  the flag as it is.
\<close>

theorem one_refresh_at_a_time:
  "(refresh_in_flight self \<longrightarrow> refresh_async L nowy self = self)
   \<and> (\<exists>s. run L evs (App_init L nowy0) = Inr s
          \<and> length (threads s) \<le> 1 \<and> length (q s) \<le> 1
          \<and> length (threads s) + length (q s) = (if refresh_in_flight s then 1 else 0))
   \<and> (step L ev self = Inr self' \<and> refresh_in_flight self \<and> \<not> refresh_in_flight self' \<longrightarrow>
        (\<exists>stamp. ev = Poll stamp) \<and> q self \<noteq> [] \<and> q self' = tl (q self))
   \<and> (step L (Finish i net) self = Inr self' \<longrightarrow>
        refresh_in_flight self' = refresh_in_flight self)"
proof -
  from coordinated_run [OF coordinated_init] obtain s where
    s: "run L evs (App_init L nowy0) = Inr s" "coordinated s" by blast
  from s(2) have
    "length (threads s) + length (q s) = (if refresh_in_flight s then 1 else 0)"
    by (simp add: coordinated_def)
  moreover from this have "length (threads s) \<le> 1" "length (q s) \<le> 1"
    by (simp_all split: if_splits)
  ultimately have "\<exists>s. run L evs (App_init L nowy0) = Inr s
          \<and> length (threads s) \<le> 1 \<and> length (q s) \<le> 1
          \<and> length (threads s) + length (q s) = (if refresh_in_flight s then 1 else 0)"
    using s(1) by blast
  then show ?thesis
    using refresh_async_in_flight flag_reset_only_by_poll finish_keeps_flag by blast
qed

text \<open>
  The example: the application starts in flight; a second call of \<open>refresh_async\<close>
  is the identity before and after the worker has put its message, and the poll
  that takes the message resets the flag.
\<close>

theorem one_refresh_at_a_time_witness:
  "refresh_in_flight (App_init plain_lib 2024)
   \<and> refresh_async plain_lib 2025 (App_init plain_lib 2024) = App_init plain_lib 2024
   \<and> (\<exists>s. step plain_lib (Finish 0 offline) (App_init plain_lib 2024) = Inr s
          \<and> refresh_in_flight s \<and> threads s = [] \<and> q s = [Err RequestException]
          \<and> refresh_async plain_lib 2025 s = s
          \<and> (\<exists>s'. step plain_lib (Poll ''2024-01-06 12:00:00'') s = Inr s'
                \<and> \<not> refresh_in_flight s' \<and> q s' = []))"
proof -
  let ?i = "App_init plain_lib 2024"
  let ?s = "?i\<lparr>threads := [], q := [Err RequestException]\<rparr>"
  let ?s' = "?s\<lparr>q := [], status := [Lit ''Error''],
                 dialogs := dialogs ?s @ [(''Refresh failed'', RequestException)],
                 refresh_in_flight := False, refresh_btn := normal\<rparr>"
  have p: "step plain_lib (Poll ''2024-01-06 12:00:00'') ?s = Inr ?s'"
    by (simp add: step_def poll_queue_def)
  from one_refresh_at_a_time [of ?i plain_lib 2025 "[]" 2024 "Finish 0 offline" ?s 0 offline]
    one_refresh_at_a_time [of ?s plain_lib 2025 "[]" 2024 "Poll ''2024-01-06 12:00:00''" ?s' 0 offline]
    init_finish_offline p
  show ?thesis
    by (simp add: init_state)
qed

subsection \<open>One result for each request\<close>

text \<open>
  Claim C2. A call of \<open>refresh_async\<close> that is accepted starts one worker with the
  parameters read at that moment, and the worker puts exactly one message on the
  queue: \<open>Ok\<close> with both fetched values and the parameters it was started with
  when both fetches succeed, \<open>Err\<close> with the exception when either fetch raises.
\<close>

theorem worker_puts_exactly_one_result:
  "length (refresh_worker L net start_year end_year budget_label queue) = length queue + 1
   \<and> (fetch_latest_noaa_daily_ppm L net = Inr snap
        \<and> fetch_world_emissions_owid L net start_year end_year = Inr emissions \<longrightarrow>
      refresh_worker L net start_year end_year budget_label queue
        = queue @ [Ok snap emissions start_year end_year budget_label])
   \<and> (fetch_latest_noaa_daily_ppm L net = Inl e
        \<or> (\<exists>snap. fetch_latest_noaa_daily_ppm L net = Inr snap)
            \<and> fetch_world_emissions_owid L net start_year end_year = Inl e \<longrightarrow>
      refresh_worker L net start_year end_year budget_label queue = queue @ [Err e])
   \<and> (\<not> refresh_in_flight self \<longrightarrow>
      threads (refresh_async L nowy self)
        = threads self @ [(parse_start_year_main_thread L nowy self, nowy, budget_choice self)])
   \<and> (i < length (threads self) \<longrightarrow>
      (\<exists>m self'. step L (Finish i net') self = Inr self' \<and> q self' = q self @ [m]
         \<and> length (threads self') + 1 = length (threads self)))"
proof -
  have "\<exists>m self'. step L (Finish i net') self = Inr self' \<and> q self' = q self @ [m]
         \<and> length (threads self') + 1 = length (threads self)"
    if "i < length (threads self)"
  proof -
    obtain sy ey bl where a: "threads self ! i = (sy, ey, bl)"
      by (cases "threads self ! i") auto
    have "\<exists>m. refresh_worker L net' sy ey bl (q self) = q self @ [m]"
      by (simp add: refresh_worker_def split: sum.splits)
    with that a show ?thesis
      by (auto simp: step_def)
  qed
  moreover have "threads (refresh_async L nowy self)
        = threads self @ [(parse_start_year_main_thread L nowy self, nowy, budget_choice self)]"
    if "\<not> refresh_in_flight self"
    using that by (simp add: refresh_async_def Let_def)
  moreover have
    "length (refresh_worker L net start_year end_year budget_label queue) = length queue + 1"
    by (simp add: length_refresh_worker)
  moreover have "refresh_worker L net start_year end_year budget_label queue
        = queue @ [Ok snap emissions start_year end_year budget_label]"
    if "fetch_latest_noaa_daily_ppm L net = Inr snap
        \<and> fetch_world_emissions_owid L net start_year end_year = Inr emissions"
    using that by (simp add: refresh_worker_def)
  moreover have
    "refresh_worker L net start_year end_year budget_label queue = queue @ [Err e]"
    if "fetch_latest_noaa_daily_ppm L net = Inl e
        \<or> (\<exists>snap. fetch_latest_noaa_daily_ppm L net = Inr snap)
            \<and> fetch_world_emissions_owid L net start_year end_year = Inl e"
    using that by (auto simp: refresh_worker_def)
  ultimately show ?thesis
    by blast
qed

text \<open>The example: one worker on the two example files, and one without a network.\<close>

theorem worker_puts_exactly_one_result_witness:
  "refresh_worker plain_lib (serving example_noaa example_owid) 2020 2024 ''any label'' []
     = [Ok \<lparr>date = (2024, 1, 5), ppm = 420.7\<rparr> [(2020, 35), (2021, 37.0005)] 2020 2024 ''any label'']
   \<and> refresh_worker plain_lib offline 2020 2024 ''any label'' [] = [Err RequestException]
   \<and> threads (App_init plain_lib 2024)
       = [(2020, 2024, ''1.5degC budget (50% chance) ~580 GtCO2'')]
   \<and> (\<exists>m s. step plain_lib (Finish 0 offline) (App_init plain_lib 2024) = Inr s
         \<and> q s = [m] \<and> threads s = [])"
proof -
  let ?i = "App_init plain_lib 2024"
  from worker_puts_exactly_one_result
    [of plain_lib "serving example_noaa example_owid" 2020 2024 "''any label''" "[]"
        "\<lparr>date = (2024, 1, 5), ppm = 420.7\<rparr>" "[(2020, 35), (2021, 37.0005)]" RequestException
        ?i 2024 0 offline]
    worker_puts_exactly_one_result
    [of plain_lib offline 2020 2024 "''any label''" "[]"
        "\<lparr>date = (2024, 1, 5), ppm = 420.7\<rparr>" "[(2020, 35), (2021, 37.0005)]" RequestException
        ?i 2024 0 offline]
    example_noaa_fetch example_owid_fetch offline_noaa_fetch [of plain_lib] init_finish_offline
  show ?thesis
    by (simp add: init_state)
qed

subsection \<open>A failure leaves the display\<close>

lemma poll_queue_Err:
  "q self = Err tb # rest \<Longrightarrow>
   poll_queue stamp self =
     Inr (self\<lparr>q := rest, status := [Lit ''Error''],
               dialogs := dialogs self @ [(''Refresh failed'', tb)],
               refresh_in_flight := False, refresh_btn := normal\<rparr>)"
  by (simp add: poll_queue_def)

lemma display_changes_only_on_Ok:
  assumes "step L ev self = Inr self'"
    and "cards self' \<noteq> cards self \<or> last_snapshot self' \<noteq> last_snapshot self"
  shows "\<exists>stamp snap emissions start_year end_year budget_label rest.
           ev = Poll stamp
           \<and> q self = Ok snap emissions start_year end_year budget_label # rest
           \<and> render snap emissions start_year end_year budget_label (cards self)
               = Inr (cards self')
           \<and> last_snapshot self' = Some snap"
proof (cases ev)
  case (Poll stamp)
  with assms show ?thesis
    by (auto simp: step_def poll_queue_def split: list.splits msg.splits sum.splits)
qed (use assms in \<open>auto simp: step_def refresh_async_def Let_def split: if_splits prod.splits\<close>)

lemma worker_Ok_both_fetched:
  assumes "refresh_worker L net start_year end_year budget_label queue
             = queue @ [Ok snap emissions sy ey bl]"
  shows "fetch_latest_noaa_daily_ppm L net = Inr snap
         \<and> fetch_world_emissions_owid L net start_year end_year = Inr emissions"
  using assms by (auto simp: refresh_worker_def split: sum.splits)

text \<open>
  Claim C6. When the message taken from the queue is a failure, \<open>_poll_queue\<close> sets
  the status line to \<open>Error\<close>, shows the dialog, takes the message and re-enables the
  refresh; the cards and the last snapshot (and every other field) stay as they
  were. A step changes the cards or the last snapshot only when it takes an \<open>Ok\<close>
  message, which it renders in full, and a worker puts an \<open>Ok\<close> message only when
  both fetches succeeded.
\<close>

theorem failure_leaves_the_display:
  "(q self = Err tb # rest \<longrightarrow>
      poll_queue stamp self =
        Inr (self\<lparr>q := rest, status := [Lit ''Error''],
                  dialogs := dialogs self @ [(''Refresh failed'', tb)],
                  refresh_in_flight := False, refresh_btn := normal\<rparr>))
   \<and> (q self = Err tb # rest \<and> poll_queue stamp self = Inr self' \<longrightarrow>
        cards self' = cards self \<and> last_snapshot self' = last_snapshot self
        \<and> status self' = [Lit ''Error'']
        \<and> dialogs self' = dialogs self @ [(''Refresh failed'', tb)])
   \<and> (step L ev s = Inr s'
        \<and> (cards s' \<noteq> cards s \<or> last_snapshot s' \<noteq> last_snapshot s) \<longrightarrow>
        (\<exists>stamp snap emissions start_year end_year budget_label rest.
           ev = Poll stamp
           \<and> q s = Ok snap emissions start_year end_year budget_label # rest
           \<and> render snap emissions start_year end_year budget_label (cards s) = Inr (cards s')
           \<and> last_snapshot s' = Some snap))
   \<and> (refresh_worker L net start_year end_year budget_label queue
         = queue @ [Ok snap emissions sy ey bl] \<longrightarrow>
        fetch_latest_noaa_daily_ppm L net = Inr snap
        \<and> fetch_world_emissions_owid L net start_year end_year = Inr emissions)"
proof -
  have "cards self' = cards self \<and> last_snapshot self' = last_snapshot self
        \<and> status self' = [Lit ''Error'']
        \<and> dialogs self' = dialogs self @ [(''Refresh failed'', tb)]"
    if "q self = Err tb # rest \<and> poll_queue stamp self = Inr self'"
    using that poll_queue_Err [of self tb rest stamp] by auto
  then show ?thesis
    using poll_queue_Err display_changes_only_on_Ok worker_Ok_both_fetched by blast
qed

text \<open>
  The example: the first worker without a network puts a failure, and the poll keeps
  cards and snapshot; the first worker on the example files puts \<open>Ok\<close> after both
  fetches, and the poll renders it and sets the snapshot, which was \<open>None\<close>.
\<close>

theorem failure_leaves_the_display_witness:
  "(\<exists>s s'. step plain_lib (Finish 0 offline) (App_init plain_lib 2024) = Inr s
      \<and> q s = [Err RequestException]
      \<and> poll_queue ''2024-01-06 12:00:00'' s = Inr s'
      \<and> cards s' = cards s \<and> last_snapshot s' = last_snapshot s
      \<and> status s' = [Lit ''Error'']
      \<and> dialogs s' = [(''Refresh failed'', RequestException)])
   \<and> (\<exists>u u'. step plain_lib (Finish 0 (serving example_noaa example_owid))
                 (App_init plain_lib 2024) = Inr u
      \<and> q u = [Ok \<lparr>date = (2024, 1, 5), ppm = 420.7\<rparr> [(2020, 35), (2021, 37.0005)]
                   2020 2024 ''1.5degC budget (50% chance) ~580 GtCO2'']
      \<and> fetch_latest_noaa_daily_ppm plain_lib (serving example_noaa example_owid)
          = Inr \<lparr>date = (2024, 1, 5), ppm = 420.7\<rparr>
      \<and> fetch_world_emissions_owid plain_lib (serving example_noaa example_owid) 2020 2024
          = Inr [(2020, 35), (2021, 37.0005)]
      \<and> step plain_lib (Poll ''2024-01-06 12:00:00'') u = Inr u'
      \<and> last_snapshot u = None
      \<and> last_snapshot u' = Some \<lparr>date = (2024, 1, 5), ppm = 420.7\<rparr>
      \<and> render \<lparr>date = (2024, 1, 5), ppm = 420.7\<rparr> [(2020, 35), (2021, 37.0005)] 2020 2024
           ''1.5degC budget (50% chance) ~580 GtCO2'' (cards u) = Inr (cards u'))"
proof -
  let ?i = "App_init plain_lib 2024"
  let ?s = "?i\<lparr>threads := [], q := [Err RequestException]\<rparr>"
  let ?snap = "\<lparr>date = (2024, 1, 5), ppm = 420.7\<rparr>"
  let ?em = "[(2020 :: int, 35 :: real), (2021, 37.0005)]"
  let ?l = "''1.5degC budget (50% chance) ~580 GtCO2''"
  let ?u = "?i\<lparr>threads := [], q := [Ok ?snap ?em 2020 2024 ?l]\<rparr>"
  have d: "dialogs ?i = []" "last_snapshot ?i = None"
    by (simp_all add: App_init_def refresh_async_def Let_def)
  obtain cs where cs: "render ?snap ?em 2020 2024 ?l (cards ?i) = Inr cs"
    using render_total [OF init_cards_dom] by blast
  let ?u' = "?u\<lparr>q := [], last_snapshot := Some ?snap, cards := cs,
                 status := [Lit ''Updated '', Lit ''2024-01-06 12:00:00''],
                 refresh_in_flight := False, refresh_btn := normal\<rparr>"
  have p: "step plain_lib (Poll ''2024-01-06 12:00:00'') ?u = Inr ?u'"
    using cs by (simp add: step_def poll_queue_def)
  have w: "refresh_worker plain_lib (serving example_noaa example_owid) 2020 2024 ?l []
         = [] @ [Ok ?snap ?em 2020 2024 ?l]"
    by (simp add: refresh_worker_def example_noaa_fetch example_owid_fetch)
  from failure_leaves_the_display
    [of ?s RequestException "[]" "''2024-01-06 12:00:00''" _ plain_lib
        "Poll ''2024-01-06 12:00:00''" ?u ?u' "serving example_noaa example_owid" 2020 2024 ?l "[]"
        ?snap ?em 2020 2024 ?l]
    init_finish_offline init_finish_serving p w d cs
  show ?thesis
    by simp
qed

section \<open>The emissions fetcher\<close>

lemma owid_row_selected:
  "owid_row L start_year end_year row out =
     out @ (case selected L start_year end_year row of None \<Rightarrow> [] | Some x \<Rightarrow> [x])"
  by (auto simp: owid_row_def selected_def split: option.splits)

lemma owid_loop_selected:
  "owid_loop L start_year end_year rows out =
     out @ List.map_filter (selected L start_year end_year) rows"
  by (induction rows arbitrary: out)
     (auto simp: owid_row_selected split: option.splits)

lemma selected_Some_iff:
  "selected L start_year end_year row = Some (y, g) \<longleftrightarrow>
     (\<exists>ys vs mt. row ''country'' = Some (Some ''World'')
        \<and> row ''year'' = Some (Some ys) \<and> int_of_str L ys = Some y
        \<and> start_year \<le> y \<and> y \<le> end_year
        \<and> row ''co2'' = Some (Some vs) \<and> vs \<noteq> [] \<and> float_of_str L vs = Some mt
        \<and> g = mt / 1000)"
  by (auto simp: selected_def split: option.splits)

lemma set_map_filter: "set (List.map_filter f xs) = {y. \<exists>x \<in> set xs. f x = Some y}"
  by (induction xs) (auto simp: split: option.splits)

lemma fetch_owid_selected:
  assumes "http_get_text net OWID_CO2_CSV = Inr text" and "DictReader L text = Inr rows"
  shows "fetch_world_emissions_owid L net start_year end_year
           = Inr (sort_key fst (List.map_filter (selected L start_year end_year) rows))"
  using assms by (simp add: fetch_world_emissions_owid_def owid_loop_selected)

text \<open>
  Claim C4. When the transport gives a text and \<open>DictReader\<close> its rows, the series
  returned holds exactly the selected rows, each once: a pair is in it precisely
  when some row has the entity \<open>World\<close>, a year that parses and lies in the range,
  and an emissions field that parses, and the second component is the parsed
  emissions divided by 1000. The series is ascending by year, rows of one year keep
  their order, and the years are strictly ascending when they are distinct.
\<close>

theorem world_series_sorted:
  assumes "http_get_text net OWID_CO2_CSV = Inr text" and "DictReader L text = Inr rows"
  shows "\<exists>series. fetch_world_emissions_owid L net start_year end_year = Inr series
     \<and> series = sort_key fst (List.map_filter (selected L start_year end_year) rows)
     \<and> mset series = mset (List.map_filter (selected L start_year end_year) rows)
     \<and> ((y, g) \<in> set series \<longleftrightarrow>
          (\<exists>row ys vs mt. row \<in> set rows \<and> row ''country'' = Some (Some ''World'')
             \<and> row ''year'' = Some (Some ys) \<and> int_of_str L ys = Some y
             \<and> start_year \<le> y \<and> y \<le> end_year
             \<and> row ''co2'' = Some (Some vs) \<and> vs \<noteq> [] \<and> float_of_str L vs = Some mt
             \<and> g = mt / 1000))
     \<and> sorted (map fst series)
     \<and> (\<forall>year. filter (\<lambda>x. fst x = year) series
           = filter (\<lambda>x. fst x = year) (List.map_filter (selected L start_year end_year) rows))
     \<and> (distinct (map fst (List.map_filter (selected L start_year end_year) rows)) \<longrightarrow>
          sorted_wrt (<) (map fst series))"
proof -
  let ?sel = "List.map_filter (selected L start_year end_year) rows"
  let ?series = "sort_key fst ?sel"
  have mem: "(y, g) \<in> set ?series \<longleftrightarrow>
          (\<exists>row ys vs mt. row \<in> set rows \<and> row ''country'' = Some (Some ''World'')
             \<and> row ''year'' = Some (Some ys) \<and> int_of_str L ys = Some y
             \<and> start_year \<le> y \<and> y \<le> end_year
             \<and> row ''co2'' = Some (Some vs) \<and> vs \<noteq> [] \<and> float_of_str L vs = Some mt
             \<and> g = mt / 1000)"
    unfolding set_sort set_map_filter mem_Collect_eq selected_Some_iff by blast
  have strict: "sorted_wrt (<) (map fst ?series)" if "distinct (map fst ?sel)"
  proof -
    have "mset (map fst ?series) = mset (map fst ?sel)" by simp
    then have "distinct (map fst ?series)"
      using that by (metis mset_eq_imp_distinct_iff)
    then show ?thesis by (simp add: strict_sorted_iff)
  qed
  have stable: "\<forall>year. filter (\<lambda>x. fst x = year) ?series = filter (\<lambda>x. fst x = year) ?sel"
    by (simp add: sort_key_stable)
  from fetch_owid_selected [OF assms] mem strict stable show ?thesis
    by simp
qed

lemma example_owid_rows:
  "\<exists>rows. DictReader plain_lib example_owid = Inr rows
     \<and> List.map_filter (selected plain_lib 2020 2024) rows = [(2021, 37.0005), (2020, 35)]"
  by (simp add: example_owid_def splitlines_def is_linebreak_def plain_DictReader_def
      row_of_def selected_def strip_def isspace_def plain_lib_def signed_def
      unsigned_int_def unsigned_float_def digit_def Let_def)

text \<open>The example: two of the six rows of the example file are selected, and sorted.\<close>

theorem world_series_sorted_witness:
  "http_get_text (serving example_noaa example_owid) OWID_CO2_CSV = Inr example_owid
   \<and> (\<exists>rows. DictReader plain_lib example_owid = Inr rows
         \<and> List.map_filter (selected plain_lib 2020 2024) rows = [(2021, 37.0005), (2020, 35)]
         \<and> distinct (map fst (List.map_filter (selected plain_lib 2020 2024) rows)))
   \<and> fetch_world_emissions_owid plain_lib (serving example_noaa example_owid) 2020 2024
       = Inr [(2020, 35), (2021, 37.0005)]
   \<and> sorted_wrt (<) (map fst [(2020 :: int, 35 :: real), (2021, 37.0005)])"
proof -
  have h: "http_get_text (serving example_noaa example_owid) OWID_CO2_CSV = Inr example_owid"
    by (simp add: http_get_text_def serving_def OWID_CO2_CSV_def NOAA_DAILY_CSV_def)
  from example_owid_rows obtain rows where
    rows: "DictReader plain_lib example_owid = Inr rows"
      "List.map_filter (selected plain_lib 2020 2024) rows = [(2021, 37.0005), (2020, 35)]"
    by blast
  from world_series_sorted [OF h rows(1), of 2020 2024 2020 35] h rows
  show ?thesis
    by auto
qed

section \<open>The concentration fetcher\<close>

lemma noaa_line_fields:
  "noaa_line L line rows =
     (case noaa_fields L line of
        None \<Rightarrow> Inr rows
      | Some (y, m, d, avg) \<Rightarrow>
          (case mk_datetime y m d of
             Inl e \<Rightarrow> Inl e
           | Inr dt \<Rightarrow> Inr (rows @ [(dt, avg)])))"
  by (auto simp: noaa_line_def noaa_fields_def Let_def split: option.splits sum.splits)

lemma noaa_loop_none:
  "\<forall>line \<in> set lines. noaa_fields L line = None \<Longrightarrow> noaa_loop L lines rows = Inr rows"
  by (induction lines arbitrary: rows) (auto simp: noaa_line_fields)

lemma noaa_loop_fails:
  assumes "line \<in> set lines" and "noaa_fields L line = Some (y, m, d, avg)"
    and "mk_datetime y m d = Inl e"
  shows "\<exists>e' y' m' d'. noaa_loop L lines rows = Inl e' \<and> mk_datetime y' m' d' = Inl e'"
  using assms(1)
proof (induction lines arbitrary: rows)
  case Nil
  then show ?case by simp
next
  case (Cons l ls)
  show ?case
  proof (cases "noaa_line L l rows")
    case (Inl e')
    then have "\<exists>y' m' d'. mk_datetime y' m' d' = Inl e'"
      by (fastforce simp: noaa_line_fields split: option.splits sum.splits)
    with Inl show ?thesis by auto
  next
    case (Inr rows')
    have "l \<noteq> line"
    proof
      assume "l = line"
      with Inr assms(2,3) show False by (simp add: noaa_line_fields)
    qed
    with Cons.prems have "line \<in> set ls" by simp
    from Cons.IH [OF this, of rows'] Inr show ?thesis by simp
  qed
qed

lemma max_key_in: "max_key key b xs \<in> set (b # xs)"
  by (induction xs arbitrary: b) auto

lemma max_key_greatest: "x \<in> set (b # xs) \<Longrightarrow> key x \<le> key (max_key key b xs)"
proof (induction xs arbitrary: b x)
  case Nil
  then show ?case by simp
next
  case (Cons a xs)
  let ?b = "if key b < key a then a else b"
  have b: "key b \<le> key (max_key key ?b xs)" and a: "key a \<le> key (max_key key ?b xs)"
    using Cons.IH [of ?b ?b] Cons.IH [of a ?b] by (auto split: if_splits)
  from Cons.prems consider "x = b" | "x = a" | "x \<in> set xs" by auto
  then show ?case
  proof cases
    case 3
    then show ?thesis using Cons.IH [of x ?b] by simp
  qed (use a b in auto)
qed

lemma mk_datetime_Inr: "mk_datetime y m d = Inr dt \<Longrightarrow> dt = (y, m, d)"
  by (auto simp: mk_datetime_def split: if_splits)

lemma noaa_loop_valid:
  assumes "\<forall>line \<in> set lines. \<forall>y m d avg.
             noaa_fields L line = Some (y, m, d, avg) \<longrightarrow> (\<exists>dt. mk_datetime y m d = Inr dt)"
  shows "noaa_loop L lines rows =
           Inr (rows @ map (\<lambda>(y, m, d, avg). ((y, m, d), avg))
                         (List.map_filter (noaa_fields L) lines))"
  using assms
proof (induction lines arbitrary: rows)
  case Nil
  then show ?case by simp
next
  case (Cons l ls)
  show ?case
  proof (cases "noaa_fields L l")
    case None
    with Cons show ?thesis by (simp add: noaa_line_fields)
  next
    case (Some f)
    obtain y m d avg where f: "f = (y, m, d, avg)" by (cases f) auto
    with Some Cons.prems obtain dt where dt: "mk_datetime y m d = Inr dt" by auto
    with Some f Cons show ?thesis
      by (simp add: noaa_line_fields mk_datetime_Inr [OF dt])
  qed
qed

text \<open>
  When every surviving line carries a calendar date, the fetcher returns a record of
  the greatest date among the surviving lines, and fails exactly when none survives.
\<close>

lemma latest_record_when_dates_valid:
  assumes "http_get_text net NOAA_DAILY_CSV = Inr text"
    and "\<forall>line \<in> set (splitlines text). \<forall>y m d avg.
           noaa_fields L line = Some (y, m, d, avg) \<longrightarrow> (\<exists>dt. mk_datetime y m d = Inr dt)"
    and "surviving = map (\<lambda>(y, m, d, avg). ((y, m, d), avg))
                       (List.map_filter (noaa_fields L) (splitlines text))"
  shows "(surviving = [] \<longrightarrow>
            fetch_latest_noaa_daily_ppm L net
              = Inl (RuntimeError ''No valid rows found in NOAA daily CO2 file.''))
         \<and> (surviving \<noteq> [] \<longrightarrow>
              (\<exists>snap. fetch_latest_noaa_daily_ppm L net = Inr snap
                 \<and> (date snap, ppm snap) \<in> set surviving
                 \<and> (\<forall>r \<in> set surviving. fst r \<le> date snap)))"
proof -
  have loop: "noaa_loop L (splitlines text) [] = Inr surviving"
    using noaa_loop_valid [OF assms(2), of "[]"] assms(3) by simp
  show ?thesis
  proof (cases surviving)
    case Nil
    with loop assms(1) show ?thesis
      by (simp add: fetch_latest_noaa_daily_ppm_def)
  next
    case (Cons r rs)
    obtain dt v where m: "max_key fst r rs = (dt, v)" by (cases "max_key fst r rs") auto
    from loop assms(1) Cons m have
      "fetch_latest_noaa_daily_ppm L net = Inr \<lparr>date = dt, ppm = v\<rparr>"
      by (simp add: fetch_latest_noaa_daily_ppm_def)
    moreover from max_key_in [of fst r rs] m Cons have "(dt, v) \<in> set surviving" by simp
    moreover have "\<forall>x \<in> set surviving. fst x \<le> dt"
      using max_key_greatest [of _ r rs fst] m Cons by auto
    ultimately show ?thesis using Cons by auto
  qed
qed

text \<open>
  Claim C10. A line whose year, month and day parse and whose mean is positive, but
  whose date \<open>datetime\<close> refuses (month 13, 30 February), makes the whole fetch
  fail with the exception of \<open>datetime\<close>: the constructor is called after the
  handler of the parse errors, so the line is not discarded, as a line that does
  not pass the filters is.
\<close>

theorem invalid_date_fails_whole_fetch:
  assumes "http_get_text net NOAA_DAILY_CSV = Inr text"
    and "line \<in> set (splitlines text)"
    and "noaa_fields L line = Some (y, m, d, avg)"
    and "mk_datetime y m d = Inl e"
  shows "(\<exists>e' y' m' d'. fetch_latest_noaa_daily_ppm L net = Inl e'
            \<and> mk_datetime y' m' d' = Inl e')
         \<and> (noaa_fields L line' = None \<longrightarrow> noaa_line L line' rows = Inr rows)"
proof -
  from noaa_loop_fails [OF assms(2-4), of "[]"] obtain e' y' m' d' where
    "noaa_loop L (splitlines text) [] = Inl e'" "mk_datetime y' m' d' = Inl e'"
    by blast
  with assms(1) show ?thesis
    by (auto simp: fetch_latest_noaa_daily_ppm_def noaa_line_fields)
qed

text \<open>
  The example: a file with 28 February and 30 February 2023; a line whose day does
  not parse is skipped.
\<close>

theorem invalid_date_fails_whole_fetch_witness:
  "http_get_text (serving ''2023,2,28,2023.1603,419.9\<newline>2023,2,30,2023.1658,420.2'' [])
       NOAA_DAILY_CSV
     = Inr ''2023,2,28,2023.1603,419.9\<newline>2023,2,30,2023.1658,420.2''
   \<and> ''2023,2,30,2023.1658,420.2''
       \<in> set (splitlines ''2023,2,28,2023.1603,419.9\<newline>2023,2,30,2023.1658,420.2'')
   \<and> noaa_fields plain_lib ''2023,2,30,2023.1658,420.2'' = Some (2023, 2, 30, 420.2)
   \<and> mk_datetime 2023 2 30 = Inl (ValueError ''day is out of range for month'')
   \<and> fetch_latest_noaa_daily_ppm plain_lib
         (serving ''2023,2,28,2023.1603,419.9\<newline>2023,2,30,2023.1658,420.2'' [])
       = Inl (ValueError ''day is out of range for month'')
   \<and> noaa_fields plain_lib ''2023,2,3o,2023.1658,420.2'' = None
   \<and> noaa_line plain_lib ''2023,2,3o,2023.1658,420.2'' [((2023, 2, 28), 419.9)]
       = Inr [((2023, 2, 28), 419.9)]"
proof -
  let ?t = "''2023,2,28,2023.1603,419.9\<newline>2023,2,30,2023.1658,420.2''"
  have h1: "http_get_text (serving ?t []) NOAA_DAILY_CSV = Inr ?t"
    by (simp add: http_get_text_def serving_def)
  have h2: "''2023,2,30,2023.1658,420.2'' \<in> set (splitlines ?t)"
    by (simp add: splitlines_def is_linebreak_def)
  have h3: "noaa_fields plain_lib ''2023,2,30,2023.1658,420.2'' = Some (2023, 2, 30, 420.2)"
    by (simp add: noaa_fields_def strip_def isspace_def
        startswith_def plain_lib_def signed_def unsigned_int_def unsigned_float_def digit_def
        Let_def)
  have h4: "mk_datetime 2023 2 30 = Inl (ValueError ''day is out of range for month'')"
    by (simp add: mk_datetime_def c_int_def days_in_month_def is_leap_def)
  have h5: "fetch_latest_noaa_daily_ppm plain_lib (serving ?t [])
       = Inl (ValueError ''day is out of range for month'')"
    by (simp add: fetch_latest_noaa_daily_ppm_def http_get_text_def serving_def
      NOAA_DAILY_CSV_def splitlines_def is_linebreak_def noaa_line_def strip_def isspace_def
      startswith_def plain_lib_def signed_def unsigned_int_def unsigned_float_def digit_def
      mk_datetime_def c_int_def days_in_month_def is_leap_def Let_def)
  have h6: "noaa_fields plain_lib ''2023,2,3o,2023.1658,420.2'' = None"
    by (simp add: noaa_fields_def strip_def isspace_def
        startswith_def plain_lib_def signed_def unsigned_int_def unsigned_float_def digit_def
        Let_def)
  from invalid_date_fails_whole_fetch
         [OF h1 h2 h3 h4, of "''2023,2,3o,2023.1658,420.2''" "[((2023, 2, 28), 419.9)]"]
       h1 h2 h3 h4 h5 h6
  show ?thesis by simp
qed

text \<open>
  Claim C3 says that the fetcher fails if and only if no line survives the filters.
  On the file below two lines survive, one of them with a calendar date, and the
  fetcher fails on the month 13 of the other.
\<close>

theorem month_13_row_fails_fetch:
  "fetch_latest_noaa_daily_ppm plain_lib
       (serving ''2024,1,5,2024.0123,420.7\<newline>2024,13,1,2024.9,421.0'' [])
     = Inl (ValueError ''month must be in 1..12'')
   \<and> List.map_filter (noaa_fields plain_lib)
       (splitlines ''2024,1,5,2024.0123,420.7\<newline>2024,13,1,2024.9,421.0'')
     = [(2024, 1, 5, 420.7), (2024, 13, 1, 421.0)]"
  by (simp add: fetch_latest_noaa_daily_ppm_def http_get_text_def serving_def
      NOAA_DAILY_CSV_def splitlines_def is_linebreak_def noaa_line_def noaa_fields_def
      strip_def isspace_def
      startswith_def plain_lib_def signed_def unsigned_int_def unsigned_float_def digit_def
      mk_datetime_def c_int_def days_in_month_def is_leap_def Let_def)

section \<open>How the fetchers fail\<close>

lemma http_get_text_cases:
  "net url = Unreachable \<Longrightarrow> http_get_text net url = Inl RequestException"
  "net url = Reply st body \<Longrightarrow> 400 \<le> st \<Longrightarrow> st < 600 \<Longrightarrow>
     http_get_text net url = Inl (HTTPError st)"
  by (simp_all add: http_get_text_def)

text \<open>
  Claim C5, as the code has it. Each fetcher fails with \<open>RequestException\<close> when the
  transport call fails and with \<open>HTTPError\<close> when the status is in 400..599. When no
  line of the body survives, the concentration fetcher fails with \<open>RuntimeError\<close>;
  when no row of the body is selected, the emissions fetcher returns the empty
  series.
\<close>

theorem fetch_failures:
  "(net NOAA_DAILY_CSV = Unreachable \<longrightarrow>
      fetch_latest_noaa_daily_ppm L net = Inl RequestException)
   \<and> (net NOAA_DAILY_CSV = Reply st body \<and> 400 \<le> st \<and> st < 600 \<longrightarrow>
      fetch_latest_noaa_daily_ppm L net = Inl (HTTPError st))
   \<and> (net OWID_CO2_CSV = Unreachable \<longrightarrow>
      fetch_world_emissions_owid L net start_year end_year = Inl RequestException)
   \<and> (net OWID_CO2_CSV = Reply st body \<and> 400 \<le> st \<and> st < 600 \<longrightarrow>
      fetch_world_emissions_owid L net start_year end_year = Inl (HTTPError st))
   \<and> (http_get_text net NOAA_DAILY_CSV = Inr text
        \<and> (\<forall>line \<in> set (splitlines text). noaa_fields L line = None) \<longrightarrow>
      fetch_latest_noaa_daily_ppm L net
        = Inl (RuntimeError ''No valid rows found in NOAA daily CO2 file.''))
   \<and> (http_get_text net OWID_CO2_CSV = Inr text' \<and> DictReader L text' = Inr rows
        \<and> (\<forall>row \<in> set rows. selected L start_year end_year row = None) \<longrightarrow>
      fetch_world_emissions_owid L net start_year end_year = Inr [])"
proof -
  have noaa: "fetch_latest_noaa_daily_ppm L net
        = Inl (RuntimeError ''No valid rows found in NOAA daily CO2 file.'')"
    if "http_get_text net NOAA_DAILY_CSV = Inr text
        \<and> (\<forall>line \<in> set (splitlines text). noaa_fields L line = None)"
    using that by (simp add: fetch_latest_noaa_daily_ppm_def noaa_loop_none)
  have owid: "fetch_world_emissions_owid L net start_year end_year = Inr []"
    if "http_get_text net OWID_CO2_CSV = Inr text' \<and> DictReader L text' = Inr rows
        \<and> (\<forall>row \<in> set rows. selected L start_year end_year row = None)"
  proof -
    from that have "set (List.map_filter (selected L start_year end_year) rows) = {}"
      unfolding set_map_filter by auto
    with that show ?thesis
      by (simp add: fetch_owid_selected)
  qed
  from noaa owid show ?thesis
    by (simp add: fetch_latest_noaa_daily_ppm_def fetch_world_emissions_owid_def
        http_get_text_cases)
qed

lemma header_only_rows: "DictReader plain_lib ''country,year,co2'' = Inr []"
  by (simp add: plain_lib_def plain_DictReader_def splitlines_def is_linebreak_def)

text \<open>
  Claim C5 as stated fails: on a body with the header only, the emissions fetcher
  returns the empty series instead of failing.
\<close>

theorem empty_series_is_returned:
  "fetch_world_emissions_owid plain_lib (serving example_noaa ''country,year,co2'') 2020 2024
     = Inr []"
  by (simp add: fetch_world_emissions_owid_def http_get_text_def serving_def OWID_CO2_CSV_def
      NOAA_DAILY_CSV_def header_only_rows)

text \<open>The examples: no network, status 503, and bodies without a usable record.\<close>

theorem fetch_failures_witness:
  "fetch_latest_noaa_daily_ppm plain_lib offline = Inl RequestException
   \<and> fetch_world_emissions_owid plain_lib offline 2020 2024 = Inl RequestException
   \<and> fetch_latest_noaa_daily_ppm plain_lib (\<lambda>url. Reply 503 ''Service Unavailable'')
       = Inl (HTTPError 503)
   \<and> fetch_world_emissions_owid plain_lib (\<lambda>url. Reply 503 ''Service Unavailable'') 2020 2024
       = Inl (HTTPError 503)
   \<and> fetch_latest_noaa_daily_ppm plain_lib (serving ''# no data\<newline>2024,1,2,2024.0041,n/a'' '''')
       = Inl (RuntimeError ''No valid rows found in NOAA daily CO2 file.'')
   \<and> fetch_world_emissions_owid plain_lib (serving [] ''country,year,co2'') 2020 2024 = Inr []"
proof -
  let ?n = "''# no data\<newline>2024,1,2,2024.0041,n/a''"
  have h1: "http_get_text (serving ?n []) NOAA_DAILY_CSV = Inr ?n"
    by (simp add: http_get_text_def serving_def)
  have h2: "\<forall>line \<in> set (splitlines ?n). noaa_fields plain_lib line = None"
    by (simp add: splitlines_def is_linebreak_def noaa_fields_def strip_def isspace_def
        startswith_def plain_lib_def signed_def unsigned_int_def unsigned_float_def digit_def
        Let_def)
  have h3: "http_get_text (serving [] ''country,year,co2'') OWID_CO2_CSV = Inr ''country,year,co2''"
    by (simp add: http_get_text_def serving_def OWID_CO2_CSV_def NOAA_DAILY_CSV_def)
  from fetch_failures [of offline plain_lib 0 "[]" 2020 2024 "[]" "[]" "[]"]
    fetch_failures [of "\<lambda>url. Reply 503 ''Service Unavailable''" plain_lib 503
                       "''Service Unavailable''" 2020 2024 "[]" "[]" "[]"]
    fetch_failures [of "serving ?n []" plain_lib 0 "[]" 2020 2024 ?n "[]" "[]"]
    fetch_failures [of "serving [] ''country,year,co2''" plain_lib 0 "[]" 2020 2024 "[]"
                       "''country,year,co2''" "[]"]
    h1 h2 h3 header_only_rows
  show ?thesis
    by (simp add: offline_def)
qed


end
